theory Spec2Isabelle
  imports Main
begin

section \<open>Data model\<close>

text \<open>
  A byte is an 8-bit \<^typ>\<open>char\<close>; a byte buffer (\<open>Uint8Array\<close>) is a list of bytes.
  Text is held as its UTF-8 bytes, so \<open>TextEncoder.encode\<close> is the identity on
  \<^typ>\<open>string\<close>.
\<close>

type_synonym bytes = "char list"

text \<open>
  The failures of the provider. \<open>ProviderError\<close> and \<open>VerificationError\<close> are the classes
  that \<open>src/protocol/v1.ts\<close> throws itself (the specification calls the former
  ProviderStateError); the others are thrown by the helpers it calls. \<open>EngineError\<close> is a
  rejection of the host's cryptographic engine.
\<close>

datatype error =
    ProviderError
  | KeyPurposeError
  | MalformedTokenError
  | HeaderMismatchError
  | InvalidMessageError
  | ClaimsError
  | VerificationError
  | EngineError

section \<open>PAE encoder\<close>

text \<open>
  Modelled from the spec: the ``8-byte little-endian unsigned integer'' that \<open>PAE\<close> writes
  for a count or a length. \<open>le_bytes k n\<close> is the \<open>k\<close> low bytes of \<open>n\<close>, least
  significant first.
\<close>

fun le_bytes :: "nat \<Rightarrow> nat \<Rightarrow> bytes" where
  "le_bytes 0 n = []"
| "le_bytes (Suc k) n = char_of n # le_bytes k (n div 256)"

definition le64 :: "nat \<Rightarrow> bytes" where
  "le64 n = le_bytes 8 n"

text \<open>
  Modelled from the spec: \<open>PAE\<close> of \<open>src/util/pae.ts\<close>, which is not among the sources.
  ``Produces one buffer by writing the count of parts as an 8-byte little-endian unsigned
  integer, then for each part writing its length as an 8-byte little-endian unsigned
  integer followed by its raw bytes, in order, concatenated.''
\<close>

definition PAE :: "bytes list \<Rightarrow> bytes" where
  "PAE parts = le64 (length parts) @ concat (map (\<lambda>p. le64 (length p) @ p) parts)"

text \<open>
  The inputs a host can build: fewer than \<open>2 ^ 64\<close> parts, each of fewer than \<open>2 ^ 64\<close>
  bytes (the lengths an 8-byte field can hold).
\<close>

definition pae_input :: "bytes list \<Rightarrow> bool" where
  "pae_input parts \<longleftrightarrow> length parts < 2 ^ 64 \<and> list_all (\<lambda>p. length p < 2 ^ 64) parts"

text \<open>Reading a little-endian field back.\<close>

fun from_le :: "bytes \<Rightarrow> nat" where
  "from_le [] = 0"
| "from_le (b # bs) = of_char b + 256 * from_le bs"


section \<open>Keys\<close>

text \<open>
  A \<open>CryptoKey\<close> of the host: its \<open>type\<close>, its \<open>usages\<close>, the name of its
  \<open>algorithm\<close>, and the key material, which the host keeps opaque.
\<close>

datatype key_type = Public | Private | Secret

datatype key_usage = UseSign | UseVerify | UseEncrypt | UseDecrypt

datatype key_algorithm = RSA_PSS | AES_CTR

record cryptokey =
  ktype :: key_type
  usages :: "key_usage list"
  algorithm :: key_algorithm
  material :: bytes

record keypair =
  publicKey :: cryptokey
  privateKey :: cryptokey

datatype operation = OpSign | OpVerify

text \<open>
  Modelled from the spec: when a key matches an operation, for \<open>checkKeyPurpose\<close> of
  \<open>src/util/key.ts\<close>, which is not among the sources. ``Sign requires a private signing
  key; verify requires a public verification key'': the type, a usage and the algorithm of
  the key are those of the operation.
\<close>

definition key_matches :: "operation \<Rightarrow> cryptokey \<Rightarrow> bool" where
  "key_matches op k =
     (case op of
        OpSign \<Rightarrow> ktype k = Private \<and> UseSign \<in> set (usages k) \<and> algorithm k = RSA_PSS
      | OpVerify \<Rightarrow> ktype k = Public \<and> UseVerify \<in> set (usages k) \<and> algorithm k = RSA_PSS)"

text \<open>
  Modelled from the spec: \<open>checkKeyPurpose\<close> of \<open>src/util/key.ts\<close>, which is not among
  the sources. ``Fails with KeyPurposeError when key is absent, or its usage tag/algorithm
  does not match the requested operation.''
\<close>

definition checkKeyPurpose :: "operation \<Rightarrow> cryptokey option \<Rightarrow> error + unit" where
  "checkKeyPurpose op key =
     (case key of
        None \<Rightarrow> Inl KeyPurposeError
      | Some k \<Rightarrow> if key_matches op k then Inr () else Inl KeyPurposeError)"

section \<open>Token framer\<close>

text \<open>
  Base64url without padding, the \<open>base64url_nopad\<close> of the wire format, as RFC 4648
  (section 5) defines it; the repository takes it from a library. The alphabet is
  \<open>A-Z a-z 0-9 - _\<close>: \<open>enc6\<close> maps a 6-bit value to its character, \<open>dec6\<close> a character
  to its value.
\<close>

definition enc6 :: "nat \<Rightarrow> char" where
  "enc6 n =
     (if n < 26 then char_of (65 + n)
      else if n < 52 then char_of (97 + (n - 26))
      else if n < 62 then char_of (48 + (n - 52))
      else if n = 62 then CHR ''-''
      else CHR ''_'')"

definition dec6 :: "char \<Rightarrow> nat option" where
  "dec6 c =
     (let n = (of_char c :: nat) in
      if 65 \<le> n \<and> n \<le> 90 then Some (n - 65)
      else if 97 \<le> n \<and> n \<le> 122 then Some (n - 71)
      else if 48 \<le> n \<and> n \<le> 57 then Some (n + 4)
      else if n = 45 then Some 62
      else if n = 95 then Some 63
      else None)"

fun b64url_encode :: "bytes \<Rightarrow> string" where
  "b64url_encode (a # b # c # rest) =
     enc6 (of_char a div 4)
     # enc6 (of_char a mod 4 * 16 + of_char b div 16)
     # enc6 (of_char b mod 16 * 4 + of_char c div 64)
     # enc6 (of_char c mod 64)
     # b64url_encode rest"
| "b64url_encode [a, b] =
     [enc6 (of_char a div 4),
      enc6 (of_char a mod 4 * 16 + of_char b div 16),
      enc6 (of_char b mod 16 * 4)]"
| "b64url_encode [a] = [enc6 (of_char a div 4), enc6 (of_char a mod 4 * 16)]"
| "b64url_encode [] = []"

text \<open>
  Decoding fails (\<open>None\<close>) on a character outside the alphabet and on a length that no
  encoding has (one character left over); bits of the last character that belong to no
  byte are dropped.
\<close>

fun b64url_decode :: "string \<Rightarrow> bytes option" where
  "b64url_decode (w # x # y # z # rest) =
     (case (dec6 w, dec6 x, dec6 y, dec6 z) of
        (Some p, Some q, Some r, Some s) \<Rightarrow>
          (case b64url_decode rest of
             None \<Rightarrow> None
           | Some bs \<Rightarrow>
               Some (char_of (p * 4 + q div 16)
                     # char_of (q mod 16 * 16 + r div 4)
                     # char_of (r mod 4 * 64 + s) # bs))
      | _ \<Rightarrow> None)"
| "b64url_decode [w, x, y] =
     (case (dec6 w, dec6 x, dec6 y) of
        (Some p, Some q, Some r) \<Rightarrow>
          Some [char_of (p * 4 + q div 16), char_of (q mod 16 * 16 + r div 4)]
      | _ \<Rightarrow> None)"
| "b64url_decode [w, x] =
     (case (dec6 w, dec6 x) of
        (Some p, Some q) \<Rightarrow> Some [char_of (p * 4 + q div 16)]
      | _ \<Rightarrow> None)"
| "b64url_decode [w] = None"
| "b64url_decode [] = Some []"

text \<open>
  \<open>String.prototype.split\<close> with a one-character separator: the pieces between
  the separators, empty pieces included; a string without separator is one piece.
\<close>

fun split_on :: "char \<Rightarrow> string \<Rightarrow> string list" where
  "split_on d [] = [[]]"
| "split_on d (c # cs) =
     (if c = d then [] # split_on d cs
      else (case split_on d cs of
              s # ss \<Rightarrow> (c # s) # ss
            | [] \<Rightarrow> [[c]]))"

text \<open>
  Modelled from the spec: \<open>packer\<close> of \<open>src/util/packer.ts\<close>, which is not among the
  sources. ``Emits \<open>"{header}." + base64url_nopad(payload \<parallel> signature)\<close>, appending
  \<open>"." + base64url_nopad(footer)\<close> only when footer is non-empty.''
\<close>

definition packer :: "string \<Rightarrow> bytes \<Rightarrow> bytes \<Rightarrow> string \<Rightarrow> string" where
  "packer h payload signature ftr =
     h @ ''.'' @ b64url_encode (payload @ signature)
     @ (if ftr = [] then [] else ''.'' @ b64url_encode ftr)"

record parse_options =
  opt_version :: string
  opt_purpose :: string
  opt_signatureLength :: nat

record raw_views =
  raw_payload :: bytes
  signatureBytes :: bytes

record parsed_token =
  pt_version :: string
  pt_purpose :: string
  pt_payload :: string
  pt_footer :: string
  pt_raw :: raw_views

text \<open>
  Modelled from the spec: the footer that \<open>_parse_raw_token\<close> (\<open>src/util/raw_parser.ts\<close>,
  not among the sources) returns. ``Base64url-decodes the footer segment if present (empty
  string otherwise).'' The specification names a decoding failure for the body segment
  only: a footer segment that does not decode gives the empty footer, as an absent one
  does.
\<close>

definition decode_footer :: "string option \<Rightarrow> string" where
  "decode_footer ftr_seg =
     (case ftr_seg of
        None \<Rightarrow> []
      | Some seg \<Rightarrow> (case b64url_decode seg of None \<Rightarrow> [] | Some ftr \<Rightarrow> ftr))"

text \<open>
  Modelled from the spec: the part of \<open>_parse_raw_token\<close> (\<open>src/util/raw_parser.ts\<close>,
  not among the sources) that follows the split, on the first three segments and the
  footer segment if there is one. ``Fails if the first two segments do not literally equal
  version and purpose; base64url-decodes the body segment, failing on invalid encoding;
  fails if the decoded body is shorter than signatureLength; splits body into
  \<open>payload = body[0 : len-signatureLength]\<close> and
  \<open>signature = body[len-signatureLength : len]\<close>; base64url-decodes the footer segment
  if present (empty string otherwise).'' The error taxonomy of the specification gives
  HeaderMismatchError to a version or purpose mismatch, and MalformedTokenError to an
  invalid base64url of the body and to a short body.
\<close>

definition parse_segments ::
  "parse_options \<Rightarrow> string \<Rightarrow> string \<Rightarrow> string \<Rightarrow> string option \<Rightarrow> error + parsed_token" where
  "parse_segments opts v pu body ftr_seg =
     (if v \<noteq> opt_version opts \<or> pu \<noteq> opt_purpose opts then Inl HeaderMismatchError
      else
        (case b64url_decode body of
           None \<Rightarrow> Inl MalformedTokenError
         | Some decoded \<Rightarrow>
             if length decoded < opt_signatureLength opts then Inl MalformedTokenError
             else
               (let n = length decoded - opt_signatureLength opts;
                    payload = take n decoded;
                    signature = drop n decoded
                in Inr \<lparr>pt_version = v, pt_purpose = pu, pt_payload = payload,
                        pt_footer = decode_footer ftr_seg,
                        pt_raw = \<lparr>raw_payload = payload, signatureBytes = signature\<rparr>\<rparr>)))"

text \<open>
  Modelled from the spec: \<open>_parse_raw_token\<close> of \<open>src/util/raw_parser.ts\<close>, which is
  not among the sources. ``Splits on \<open>.\<close>; fails with MalformedTokenError if the segment
  count is not 3 (no footer) or 4 (with footer)'', then goes on as above.
\<close>

definition parse_raw_token :: "string \<Rightarrow> parse_options \<Rightarrow> error + parsed_token" where
  "parse_raw_token rawToken opts =
     (case split_on CHR ''.'' rawToken of
        [v, pu, body] \<Rightarrow> parse_segments opts v pu body None
      | [v, pu, body, seg] \<Rightarrow> parse_segments opts v pu body (Some seg)
      | _ \<Rightarrow> Inl MalformedTokenError)"

section \<open>Validator\<close>

text \<open>A JavaScript value that a message or a claim can hold.\<close>

datatype jsvalue =
    JNull
  | JBool bool
  | JNum int
  | JStr string
  | JArr "jsvalue list"
  | JObj "(string \<times> jsvalue) list"

text \<open>
  The validators of \<open>src/util/validation.ts\<close> are not among the sources. The host's
  \<open>JSON.stringify\<close> and \<open>JSON.parse\<close>, which they call, are the parameters
  \<open>ext_stringify\<close> and \<open>ext_parse\<close> (\<open>None\<close> where the host throws).
\<close>

text \<open>
  Modelled from the spec: \<open>validateMessage\<close> of \<open>src/util/validation.ts\<close>. ``Rejects
  non-object/non-serializable input with InvalidMessageError; returns a deterministic byte
  serialization.''
\<close>

definition validateMessage :: "(jsvalue \<Rightarrow> string option) \<Rightarrow> jsvalue \<Rightarrow> error + string" where
  "validateMessage ext_stringify obj =
     (case obj of
        JObj kvs \<Rightarrow>
          (case ext_stringify obj of
             None \<Rightarrow> Inl InvalidMessageError
           | Some s \<Rightarrow> Inr s)
      | _ \<Rightarrow> Inl InvalidMessageError)"

text \<open>
  Modelled from the spec: \<open>validateFooter\<close> of \<open>src/util/validation.ts\<close>. ``Passes through
  a string footer (default empty) after type-checking''; the footer of the model is a string
  by its type.
\<close>

definition validateFooter :: "string \<Rightarrow> string" where
  "validateFooter ftr = ftr"

text \<open>
  Modelled from the spec: \<open>validateHeader\<close> of \<open>src/util/validation.ts\<close>. ``Fails with
  HeaderMismatchError if either component differs.'' Its result is the header
  \<open>version.purpose\<close>, which \<open>verify\<close> feeds to the PAE encoder.
\<close>

definition validateHeader :: "string \<Rightarrow> string \<Rightarrow> string \<Rightarrow> string \<Rightarrow> error + string" where
  "validateHeader expectedVersion expectedPurpose actualVersion actualPurpose =
     (if actualVersion \<noteq> expectedVersion \<or> actualPurpose \<noteq> expectedPurpose
      then Inl HeaderMismatchError
      else Inr (actualVersion @ ''.'' @ actualPurpose))"

text \<open>
  Modelled from the spec: \<open>validateClaims\<close> of \<open>src/util/validation.ts\<close>. ``Parses payload
  bytes into a claims mapping; fails with ClaimsError on structural parse failure.''
\<close>

definition validateClaims :: "(string \<Rightarrow> jsvalue option) \<Rightarrow> string \<Rightarrow> error + jsvalue" where
  "validateClaims ext_parse payload =
     (case ext_parse payload of
        Some (JObj kvs) \<Rightarrow> Inr (JObj kvs)
      | _ \<Rightarrow> Inl ClaimsError)"

section \<open>Providers\<close>

text \<open>
  Modelled from the spec: \<open>BaseProtocol\<close> of \<open>src/protocol/common.ts\<close>, which is not
  among the sources. It holds the header, ``the literal pair (version, purpose), fixed at
  provider construction'': the two strings that the constructors of \<open>src/protocol/v1.ts\<close>
  pass to it.
\<close>

record BaseProtocol =
  version :: string
  purpose :: string

record V1Local = BaseProtocol +
  secretKey :: "cryptokey option"

record V1Public = BaseProtocol +
  keyPair :: "keypair option"
  signatureLength :: nat

record VerifiedPasetoToken =
  message :: jsvalue
  footer :: string

definition new_V1Local :: "cryptokey option \<Rightarrow> V1Local" where
  "new_V1Local key = \<lparr>version = ''v1'', purpose = ''local'', secretKey = key\<rparr>"

definition new_V1Public :: "keypair option \<Rightarrow> V1Public" where
  "new_V1Public kp =
     \<lparr>version = ''v1'', purpose = ''public'', keyPair = kp, signatureLength = 256\<rparr>"

subsection \<open>The local provider\<close>

text \<open>
  \<open>encrypt\<close> and \<open>decrypt\<close> write one line to the console and return. The console is
  the list of the lines written so far; arguments a caller passes are ignored.
\<close>

definition encrypt :: "jsvalue list \<Rightarrow> V1Local \<times> string list \<Rightarrow> (error + unit) \<times> V1Local \<times> string list" where
  "encrypt args st = (case st of (this, console) \<Rightarrow> (Inr (), this, console @ [''develop an app'']))"

definition decrypt :: "jsvalue list \<Rightarrow> V1Local \<times> string list \<Rightarrow> (error + unit) \<times> V1Local \<times> string list" where
  "decrypt args st = (case st of (this, console) \<Rightarrow> (Inr (), this, console @ [''develop an app'']))"

subsection \<open>Key generation of the public provider\<close>

text \<open>
  \<open>generateKey\<close> is an async function. It runs up to its \<open>await\<close> when it is called
  (\<open>generateKey_start\<close>: the test of the key slot, which throws or lets the call go on to
  request a key pair and wait), and from the \<open>await\<close> to its end when the engine has
  answered (\<open>generateKey_resume\<close>: the assignment). \<open>engine\<close> is the engine's answer, a
  key pair or a rejection.
\<close>

definition generateKey_start :: "V1Public \<Rightarrow> error + unit" where
  "generateKey_start this =
     (case keyPair this of
        Some kp \<Rightarrow> Inl ProviderError
      | None \<Rightarrow> Inr ())"

definition generateKey_resume :: "error + keypair \<Rightarrow> V1Public \<Rightarrow> (error + unit) \<times> V1Public" where
  "generateKey_resume engine this =
     (case engine of
        Inl e \<Rightarrow> (Inl e, this)
      | Inr kp \<Rightarrow> (Inr (), this\<lparr>keyPair := Some kp\<rparr>))"

text \<open>One call that nothing interrupts: the two parts in a row.\<close>

definition generateKey :: "error + keypair \<Rightarrow> V1Public \<Rightarrow> (error + unit) \<times> V1Public" where
  "generateKey engine this =
     (case generateKey_start this of
        Inl e \<Rightarrow> (Inl e, this)
      | Inr _ \<Rightarrow> generateKey_resume engine this)"

text \<open>
  Several calls on one provider. A call is \<open>Pending\<close> before it is invoked, \<open>Awaiting\<close>
  between its two parts and \<open>Settled\<close> with its outcome after. The event loop runs one
  part of one call at a time: \<open>Invoke i\<close> is the caller invoking call \<open>i\<close>, which runs its
  first part; \<open>Answer i r\<close> is the engine answering the request of call \<open>i\<close> with \<open>r\<close>,
  which runs its second part. \<open>gk_run\<close> runs a schedule of such events.
\<close>

datatype call_state = Pending | Awaiting | Settled "error + unit"

datatype gk_event = Invoke nat | Answer nat "error + keypair"

record gk_system =
  provider :: V1Public
  calls :: "call_state list"

definition gk_step :: "gk_system \<Rightarrow> gk_event \<Rightarrow> gk_system" where
  "gk_step sys ev =
     (case ev of
        Invoke i \<Rightarrow>
          if i < length (calls sys) \<and> calls sys ! i = Pending
          then (case generateKey_start (provider sys) of
                  Inl e \<Rightarrow> sys\<lparr>calls := (calls sys)[i := Settled (Inl e)]\<rparr>
                | Inr _ \<Rightarrow> sys\<lparr>calls := (calls sys)[i := Awaiting]\<rparr>)
          else sys
      | Answer i engine \<Rightarrow>
          if i < length (calls sys) \<and> calls sys ! i = Awaiting
          then (case generateKey_resume engine (provider sys) of
                  (r, this') \<Rightarrow> \<lparr>provider = this', calls = (calls sys)[i := Settled r]\<rparr>)
          else sys)"

definition gk_run :: "gk_system \<Rightarrow> gk_event list \<Rightarrow> gk_system" where
  "gk_run sys schedule = foldl gk_step sys schedule"

subsection \<open>Signing and verifying\<close>

text \<open>
  The host's \<open>crypto.subtle.sign\<close> and \<open>crypto.subtle.verify\<close> with the parameters of
  \<open>PROTOCOLS.v1.public.pss\<close> are the parameters \<open>ext_sign\<close> and \<open>ext_verify\<close>; they
  receive the key that the provider passes, \<open>this?.keyPair?.privateKey\<close> or
  \<open>this?.keyPair?.publicKey\<close>, which is \<open>None\<close> when there is no key pair. Each operation
  returns its outcome and the provider it leaves behind.
\<close>

text \<open>\<open>TextEncoder.encode\<close>: text is held as its UTF-8 bytes already.\<close>

definition encoder_encode :: "string \<Rightarrow> bytes" where
  "encoder_encode s = s"

definition sign ::
  "(jsvalue \<Rightarrow> string option) \<Rightarrow> (cryptokey option \<Rightarrow> bytes \<Rightarrow> bytes) \<Rightarrow>
   V1Public \<Rightarrow> jsvalue \<Rightarrow> string \<Rightarrow> (error + string) \<times> V1Public" where
  "sign ext_stringify ext_sign this msg ftr =
     (case checkKeyPurpose OpSign (map_option privateKey (keyPair this)) of
        Inl e \<Rightarrow> (Inl e, this)
      | Inr _ \<Rightarrow>
          (let h = version this @ ''.'' @ purpose this in
           case validateMessage ext_stringify msg of
             Inl e \<Rightarrow> (Inl e, this)
           | Inr m \<Rightarrow>
               (let u8msg = encoder_encode m;
                    f = validateFooter ftr;
                    m2 = PAE [h, u8msg, f];
                    signature = ext_sign (map_option privateKey (keyPair this)) m2
                in (Inr (packer h u8msg signature f), this))))"

definition verify ::
  "(string \<Rightarrow> jsvalue option) \<Rightarrow> (cryptokey option \<Rightarrow> bytes \<Rightarrow> bytes \<Rightarrow> bool) \<Rightarrow>
   V1Public \<Rightarrow> string \<Rightarrow> (error + VerifiedPasetoToken) \<times> V1Public" where
  "verify ext_parse ext_verify this rawToken =
     (case checkKeyPurpose OpVerify (map_option publicKey (keyPair this)) of
        Inl e \<Rightarrow> (Inl e, this)
      | Inr _ \<Rightarrow>
          (case parse_raw_token rawToken
                  \<lparr>opt_version = version this, opt_purpose = purpose this,
                   opt_signatureLength = signatureLength this\<rparr> of
             Inl e \<Rightarrow> (Inl e, this)
           | Inr pt \<Rightarrow>
               (case validateHeader (version this) (purpose this) (pt_version pt) (pt_purpose pt) of
                  Inl e \<Rightarrow> (Inl e, this)
                | Inr h \<Rightarrow>
                    (let f = (if pt_footer pt = [] then [] else pt_footer pt);
                         s = signatureBytes (pt_raw pt);
                         m = raw_payload (pt_raw pt);
                         m2 = PAE [h, m, f];
                         isVerified = ext_verify (map_option publicKey (keyPair this)) s m2
                     in if isVerified then
                          (case validateClaims ext_parse (pt_payload pt) of
                             Inl e \<Rightarrow> (Inl e, this)
                           | Inr claims \<Rightarrow> (Inr \<lparr>message = claims, footer = pt_footer pt\<rparr>, this))
                        else (Inl VerificationError, this)))))"

section \<open>Reference instances\<close>

text \<open>
  Concrete stand-ins for the host, on which the theorems below are instantiated: a key
  pair accepted for both operations, an engine whose signature is a 256-byte tag of key and
  message (it has the shape of a signature primitive, not the strength of RSA-PSS), and
  the host's JSON codec on two messages.
\<close>

definition ref_keypair :: keypair where
  "ref_keypair =
     \<lparr>publicKey = \<lparr>ktype = Public, usages = [UseVerify], algorithm = RSA_PSS, material = ''k1''\<rparr>,
      privateKey = \<lparr>ktype = Private, usages = [UseSign], algorithm = RSA_PSS, material = ''k1''\<rparr>\<rparr>"

definition other_keypair :: keypair where
  "other_keypair =
     \<lparr>publicKey = \<lparr>ktype = Public, usages = [UseVerify], algorithm = RSA_PSS, material = ''k2''\<rparr>,
      privateKey = \<lparr>ktype = Private, usages = [UseSign], algorithm = RSA_PSS, material = ''k2''\<rparr>\<rparr>"

definition ref_tag :: "bytes \<Rightarrow> bytes \<Rightarrow> bytes" where
  "ref_tag km m = take 256 (km @ m @ replicate 256 (CHR 0x00))"

definition ref_sign :: "cryptokey option \<Rightarrow> bytes \<Rightarrow> bytes" where
  "ref_sign key m = (case key of None \<Rightarrow> [] | Some k \<Rightarrow> ref_tag (material k) m)"

definition ref_verify :: "cryptokey option \<Rightarrow> bytes \<Rightarrow> bytes \<Rightarrow> bool" where
  "ref_verify key s m = (case key of None \<Rightarrow> False | Some k \<Rightarrow> s = ref_tag (material k) m)"

definition ref_payload :: string where
  "ref_payload =
     ''{'' @ [CHR 0x22] @ ''sub'' @ [CHR 0x22] @ '':'' @ [CHR 0x22] @ ''alice'' @ [CHR 0x22] @ ''}''"

definition ref_message :: jsvalue where
  "ref_message = JObj [(''sub'', JStr ''alice'')]"

definition ref_messages :: "(jsvalue \<times> string) list" where
  "ref_messages = [(JObj [], ''{}''), (ref_message, ref_payload)]"

definition ref_stringify :: "jsvalue \<Rightarrow> string option" where
  "ref_stringify v = map_of ref_messages v"

definition ref_parse :: "string \<Rightarrow> jsvalue option" where
  "ref_parse s = map_of (map (\<lambda>(v, t). (t, v)) ref_messages) s"

text \<open>
  The reference provider and the token it signs for \<open>{"sub":"alice"}\<close> with the footer
  \<open>footer1\<close>; the token reads \<open>v1.public.eyJzdWIiOiJhbGljZSJ9...\<close>, so that the
  character at position 10 is the first one of the body segment.
\<close>

definition ref_provider :: V1Public where
  "ref_provider = new_V1Public (Some ref_keypair)"

definition ref_footer :: string where
  "ref_footer = ''footer1''"

definition ref_signature :: bytes where
  "ref_signature =
     ref_sign (Some (privateKey ref_keypair)) (PAE [''v1.public'', ref_payload, ref_footer])"

definition ref_token :: string where
  "ref_token = packer ''v1.public'' ref_payload ref_signature ref_footer"

text \<open>The body segment of the reference token after its first character.\<close>

definition ref_body_rest :: string where
  "ref_body_rest = ''yJz'' @ b64url_encode (drop 3 ref_payload @ ref_signature)"

text \<open>
  A key pair whose private slot holds a verification key, and providers configured for
  another version, with and without a key pair.
\<close>

definition verify_only_keypair :: keypair where
  "verify_only_keypair = \<lparr>publicKey = publicKey ref_keypair, privateKey = publicKey ref_keypair\<rparr>"

definition v2_provider :: V1Public where
  "v2_provider =
     \<lparr>version = ''v2'', purpose = ''public'', keyPair = Some ref_keypair, signatureLength = 64\<rparr>"

definition v2_provider_without_key :: V1Public where
  "v2_provider_without_key =
     \<lparr>version = ''v2'', purpose = ''public'', keyPair = None, signatureLength = 64\<rparr>"

text \<open>
  The ideal signature primitive after the signatures of a ledger were made: it accepts
  exactly the pairs of signature and message that the ledger holds. The ledger of the
  reference token is the one signature that \<open>sign\<close> asked for.
\<close>

definition ledger_verify :: "(bytes \<times> bytes) list \<Rightarrow> cryptokey option \<Rightarrow> bytes \<Rightarrow> bytes \<Rightarrow> bool" where
  "ledger_verify ledger key sg m = ((sg, m) \<in> set ledger)"

definition ref_ledger :: "(bytes \<times> bytes) list" where
  "ref_ledger = [(ref_signature, PAE [''v1.public'', ref_payload, ref_footer])]"



section \<open>Notions used in the statements\<close>

text \<open>The options that \<open>verify\<close> passes to the parser.\<close>

definition parse_options_of :: "V1Public \<Rightarrow> parse_options" where
  "parse_options_of this =
     \<lparr>opt_version = version this, opt_purpose = purpose this,
      opt_signatureLength = signatureLength this\<rparr>"

text \<open>
  The key that an operation reads from the provider, and whether the provider holds a key
  for the operation: a private signing key for \<open>sign\<close>, a public verification key for
  \<open>verify\<close>.
\<close>

definition provider_key :: "operation \<Rightarrow> V1Public \<Rightarrow> cryptokey option" where
  "provider_key op this =
     (case op of
        OpSign \<Rightarrow> map_option privateKey (keyPair this)
      | OpVerify \<Rightarrow> map_option publicKey (keyPair this))"

definition has_key :: "operation \<Rightarrow> V1Public \<Rightarrow> bool" where
  "has_key op this = (case provider_key op this of None \<Rightarrow> False | Some k \<Rightarrow> key_matches op k)"

text \<open>
  The body segment is not valid base64url, or it decodes to fewer than \<open>n\<close> bytes.
\<close>

definition body_malformed :: "nat \<Rightarrow> string \<Rightarrow> bool" where
  "body_malformed n body =
     (case b64url_decode body of None \<Rightarrow> True | Some decoded \<Rightarrow> length decoded < n)"

section \<open>Properties of the PAE encoder\<close>

lemma length_le_bytes: "length (le_bytes k n) = k"
  by (induction k arbitrary: n) simp_all

lemma from_le_le_bytes: "from_le (le_bytes k n) = n mod 256 ^ k"
proof (induction k arbitrary: n)
  case 0
  show ?case by simp
next
  case (Suc k)
  have "n mod 256 + 256 * (n div 256 mod 256 ^ k) = n mod (256 * 256 ^ k)"
    by (simp add: mod_mult2_eq)
  with Suc show ?case by simp
qed

lemma length_le64: "length (le64 n) = 8"
  by (simp add: le64_def length_le_bytes)

lemma le64_inj:
  assumes "le64 m = le64 n" and "m < 2 ^ 64" and "n < 2 ^ 64"
  shows "m = n"
proof -
  have "from_le (le64 m) = from_le (le64 n)"
    using assms(1) by simp
  then have "m mod 256 ^ 8 = n mod 256 ^ 8"
    by (simp add: le64_def from_le_le_bytes)
  with assms(2,3) show ?thesis by simp
qed

lemma pae_parts_inj:
  assumes "length ps = length qs"
    and "list_all (\<lambda>p. length p < 2 ^ 64) ps"
    and "list_all (\<lambda>p. length p < 2 ^ 64) qs"
    and "concat (map (\<lambda>p. le64 (length p) @ p) ps) = concat (map (\<lambda>p. le64 (length p) @ p) qs)"
  shows "ps = qs"
  using assms
proof (induction ps qs rule: list_induct2)
  case Nil
  show ?case by simp
next
  case (Cons p ps q qs)
  let ?rp = "concat (map (\<lambda>p. le64 (length p) @ p) ps)"
  let ?rq = "concat (map (\<lambda>p. le64 (length p) @ p) qs)"
  from Cons.prems(3) have eq: "le64 (length p) @ (p @ ?rp) = le64 (length q) @ (q @ ?rq)"
    by simp
  have "le64 (length p) = le64 (length q) \<and> p @ ?rp = q @ ?rq"
    using eq by (intro conjI; simp add: append_eq_append_conv length_le64)
  moreover from Cons.prems have "length p < 2 ^ 64" "length q < 2 ^ 64"
    by simp_all
  ultimately have len: "length p = length q" and rest: "p @ ?rp = q @ ?rq"
    by (auto dest: le64_inj)
  from len rest have "p = q" "?rp = ?rq"
    by simp_all
  with Cons show ?case by simp
qed

lemma PAE_eq_imp_eq:
  assumes "pae_input ps" and "pae_input qs" and "PAE ps = PAE qs"
  shows "ps = qs"
proof -
  from assms(3) have "le64 (length ps) = le64 (length qs)"
    and body: "concat (map (\<lambda>p. le64 (length p) @ p) ps) = concat (map (\<lambda>p. le64 (length p) @ p) qs)"
    by (simp_all add: PAE_def append_eq_append_conv length_le64)
  with assms(1,2) have "length ps = length qs"
    by (auto simp: pae_input_def dest: le64_inj)
  with assms(1,2) body show ?thesis
    by (auto simp: pae_input_def intro: pae_parts_inj)
qed

text \<open>
  C2. The PAE encoding is injective on ordered lists of byte buffers: two distinct
  part sequences, also two different splits of the same concatenated bytes, never have
  the same encoding.
\<close>

theorem PAE_injective:
  assumes "pae_input ps" and "pae_input qs" and "ps \<noteq> qs"
  shows "PAE ps \<noteq> PAE qs"
proof
  assume eq: "PAE ps = PAE qs"
  then have "le64 (length ps) = le64 (length qs)"
    and body: "concat (map (\<lambda>p. le64 (length p) @ p) ps) = concat (map (\<lambda>p. le64 (length p) @ p) qs)"
    by (simp_all add: PAE_def append_eq_append_conv length_le64)
  with assms(1,2) have "length ps = length qs"
    by (auto simp: pae_input_def dest: le64_inj)
  with assms(1,2) body have "ps = qs"
    by (auto simp: pae_input_def intro: pae_parts_inj)
  with assms(3) show False by simp
qed

theorem PAE_injective_witness: "PAE [''ab'', ''cd''] \<noteq> PAE [''abcd'']"
  using PAE_injective [of "[''ab'', ''cd'']" "[''abcd'']"]
  by (simp add: pae_input_def)

section \<open>Properties of the token framer\<close>

lemma dec6_enc6: "n < 64 \<Longrightarrow> dec6 (enc6 n) = Some n"
  by (auto simp: enc6_def dec6_def Let_def)
lemma enc6_not_dot: "enc6 n \<noteq> CHR ''.''"
proof -
  have "(of_char (enc6 n) :: nat) \<noteq> 46"
    by (auto simp: enc6_def)
  then show ?thesis by auto
qed

lemma sextet_bounds:
  fixes a b c :: nat
  assumes "a < 256" "b < 256" "c < 256"
  shows "a div 4 < 64" "a mod 4 * 16 + b div 16 < 64" "b mod 16 * 4 + c div 64 < 64" "c mod 64 < 64"
    "a mod 4 * 16 < 64" "b mod 16 * 4 < 64"
  using assms by auto

lemma octet1: fixes a b :: nat assumes "b < 256"
  shows "a div 4 * 4 + (a mod 4 * 16 + b div 16) div 16 = a"
proof -
  have "b div 16 < 16" using assms by simp
  then have "(a mod 4 * 16 + b div 16) div 16 = a mod 4" by simp
  then show ?thesis by simp
qed
lemma octet2: fixes a b c :: nat assumes "b < 256" "c < 256"
  shows "(a mod 4 * 16 + b div 16) mod 16 * 16 + (b mod 16 * 4 + c div 64) div 4 = b"
proof -
  have "b div 16 < 16" using assms by simp
  then have 1: "(a mod 4 * 16 + b div 16) mod 16 = b div 16" by simp
  have "c div 64 < 4" using assms by simp
  then have 2: "(b mod 16 * 4 + c div 64) div 4 = b mod 16" by simp
  show ?thesis unfolding 1 2 by simp
qed
lemma octet3: fixes b c :: nat assumes "c < 256"
  shows "(b mod 16 * 4 + c div 64) mod 4 * 64 + c mod 64 = c"
proof -
  have "c div 64 < 4" using assms by simp
  then have 1: "(b mod 16 * 4 + c div 64) mod 4 = c div 64" by simp
  show ?thesis unfolding 1 by simp
qed
lemma octet1_last: fixes a :: nat 
  shows "a div 4 * 4 + (a mod 4 * 16) div 16 = a"
  by simp
lemma octet2_last: fixes a b :: nat assumes "b < 256"
  shows "(a mod 4 * 16 + b div 16) mod 16 * 16 + (b mod 16 * 4) div 4 = b"
proof -
  have "b div 16 < 16" using assms by simp
  then have 1: "(a mod 4 * 16 + b div 16) mod 16 = b div 16" by simp
  show ?thesis unfolding 1 by simp
qed

lemma of_char_less: "(of_char c :: nat) < 256"
  by simp

lemma sextets_of_char:
  "of_char a div 4 < (64::nat)"
  "of_char a mod 4 * 16 + of_char b div 16 < (64::nat)"
  "of_char b mod 16 * 4 + of_char c div 64 < (64::nat)"
  "of_char c mod 64 < (64::nat)"
  "of_char a mod 4 * 16 < (64::nat)"
  "of_char b mod 16 * 4 < (64::nat)"
  using sextet_bounds [of "of_char a" "of_char b" "of_char c"] by simp_all

lemma dec6_sextets:
  "dec6 (enc6 (of_char a div 4)) = Some (of_char a div 4)"
  "dec6 (enc6 (of_char a mod 4 * 16 + of_char b div 16)) = Some (of_char a mod 4 * 16 + of_char b div 16)"
  "dec6 (enc6 (of_char b mod 16 * 4 + of_char c div 64)) = Some (of_char b mod 16 * 4 + of_char c div 64)"
  "dec6 (enc6 (of_char c mod 64)) = Some (of_char c mod 64)"
  "dec6 (enc6 (of_char a mod 4 * 16)) = Some (of_char a mod 4 * 16)"
  "dec6 (enc6 (of_char b mod 16 * 4)) = Some (of_char b mod 16 * 4)"
  by (rule dec6_enc6, rule sextets_of_char)+

lemma octets_of_char:
  "char_of (of_char a div 4 * 4 + (of_char a mod 4 * 16 + of_char b div 16) div 16 :: nat) = a"
  "char_of ((of_char a mod 4 * 16 + of_char b div 16) mod 16 * 16
            + (of_char b mod 16 * 4 + of_char c div 64) div 4 :: nat) = b"
  "char_of ((of_char b mod 16 * 4 + of_char c div 64) mod 4 * 64 + of_char c mod 64 :: nat) = c"
  "char_of (of_char a div 4 * 4 + (of_char a mod 4 * 16) div 16 :: nat) = a"
  "char_of ((of_char a mod 4 * 16 + of_char b div 16) mod 16 * 16 + (of_char b mod 16 * 4) div 4 :: nat) = b"
  by (simp_all only: octet1 [OF of_char_less] octet2 [OF of_char_less of_char_less] octet3 [OF of_char_less]
        octet1_last octet2_last [OF of_char_less] char_of_char)

lemma b64url_roundtrip: "b64url_decode (b64url_encode bs) = Some bs"
proof (induction bs rule: b64url_encode.induct)
  case (1 a b c rest)
  then show ?case
    by (simp only: b64url_encode.simps b64url_decode.simps dec6_sextets octets_of_char
          option.case prod.case)
next
  case (2 a b)
  show ?case
    by (simp only: b64url_encode.simps b64url_decode.simps dec6_sextets octets_of_char
          option.case prod.case)
next
  case (3 a)
  show ?case
    by (simp only: b64url_encode.simps b64url_decode.simps dec6_sextets octets_of_char
          option.case prod.case)
next
  case 4
  show ?case by simp
qed

lemma b64url_no_dot: "CHR ''.'' \<notin> set (b64url_encode bs)"
  by (induction bs rule: b64url_encode.induct) (simp_all add: enc6_not_dot [symmetric])

lemma split_on_no_sep: "d \<notin> set s \<Longrightarrow> split_on d s = [s]"
  by (induction s) auto

lemma split_on_append: "d \<notin> set s \<Longrightarrow> split_on d (s @ d # t) = s # split_on d t"
  by (induction s) auto


lemma split_packer:
  assumes "CHR ''.'' \<notin> set v" and "CHR ''.'' \<notin> set pu"
  shows "split_on CHR ''.'' (packer (v @ CHR ''.'' # pu) payload sg ftr) =
           (if ftr = [] then [v, pu, b64url_encode (payload @ sg)]
            else [v, pu, b64url_encode (payload @ sg), b64url_encode ftr])"
  using assms
  by (simp add: packer_def split_on_append split_on_no_sep b64url_no_dot)

lemma parse_packer:
  assumes "CHR ''.'' \<notin> set v" and "CHR ''.'' \<notin> set pu" and "length sg = n"
  shows "parse_raw_token (packer (v @ CHR ''.'' # pu) payload sg ftr)
           \<lparr>opt_version = v, opt_purpose = pu, opt_signatureLength = n\<rparr> =
         Inr \<lparr>pt_version = v, pt_purpose = pu, pt_payload = payload, pt_footer = ftr,
              pt_raw = \<lparr>raw_payload = payload, signatureBytes = sg\<rparr>\<rparr>"
  using assms(3)
  by (simp add: parse_raw_token_def split_packer [OF assms(1,2)] parse_segments_def
        decode_footer_def b64url_roundtrip)

section \<open>Signing and verifying: the round trip\<close>

text \<open>
  C1. For every message that is a plain serializable object (the host serializes it to \<open>s\<close>
  and parses \<open>s\<close> back to it) and every string footer, on a V1Public provider holding a
  key pair valid for v1/public, \<open>verify (sign m f)\<close> succeeds and returns
  \<open>{message: m, footer: f}\<close>, provided the external primitive is correct: the signature it
  makes has the 256 bytes of the protocol and is accepted for the signed bytes.
\<close>

theorem sign_verify_roundtrip:
  assumes "key_matches OpSign (privateKey kp)"
    and "key_matches OpVerify (publicKey kp)"
    and "ext_stringify (JObj kvs) = Some s"
    and "ext_parse s = Some (JObj kvs)"
    and "length (ext_sign (Some (privateKey kp)) (PAE [''v1.public'', s, f])) = 256"
    and "ext_verify (Some (publicKey kp))
           (ext_sign (Some (privateKey kp)) (PAE [''v1.public'', s, f]))
           (PAE [''v1.public'', s, f])"
  shows "\<exists>tok.
           sign ext_stringify ext_sign (new_V1Public (Some kp)) (JObj kvs) f =
             (Inr tok, new_V1Public (Some kp)) \<and>
           verify ext_parse ext_verify (new_V1Public (Some kp)) tok =
             (Inr \<lparr>message = JObj kvs, footer = f\<rparr>, new_V1Public (Some kp))"
proof -
  let ?p = "new_V1Public (Some kp)"
  let ?m2 = "PAE [''v1.public'', s, f]"
  let ?sg = "ext_sign (Some (privateKey kp)) ?m2"
  let ?tok = "packer ''v1.public'' s ?sg f"
  have signed: "sign ext_stringify ext_sign ?p (JObj kvs) f = (Inr ?tok, ?p)"
    using assms(1,3)
    by (simp add: sign_def encoder_encode_def checkKeyPurpose_def validateMessage_def validateFooter_def
          new_V1Public_def Let_def)
  have parsed: "parse_raw_token ?tok
           \<lparr>opt_version = ''v1'', opt_purpose = ''public'', opt_signatureLength = 256\<rparr> =
         Inr \<lparr>pt_version = ''v1'', pt_purpose = ''public'', pt_payload = s, pt_footer = f,
              pt_raw = \<lparr>raw_payload = s, signatureBytes = ?sg\<rparr>\<rparr>"
    using parse_packer [of "''v1''" "''public''" ?sg 256 s f] assms(5) by simp
  have "verify ext_parse ext_verify ?p ?tok = (Inr \<lparr>message = JObj kvs, footer = f\<rparr>, ?p)"
    using assms(2,4,6)
    by (auto simp: verify_def checkKeyPurpose_def new_V1Public_def parsed validateHeader_def
          validateClaims_def Let_def)
  with signed show ?thesis by blast
qed

theorem sign_verify_roundtrip_witness:
  "\<exists>tok.
     sign ref_stringify ref_sign (new_V1Public (Some ref_keypair))
       (JObj [(''sub'', JStr ''alice'')]) ''footer1'' =
       (Inr tok, new_V1Public (Some ref_keypair)) \<and>
     verify ref_parse ref_verify (new_V1Public (Some ref_keypair)) tok =
       (Inr \<lparr>message = JObj [(''sub'', JStr ''alice'')], footer = ''footer1''\<rparr>,
        new_V1Public (Some ref_keypair))"
proof (rule sign_verify_roundtrip)
  show "key_matches OpSign (privateKey ref_keypair)"
    by (simp add: key_matches_def ref_keypair_def)
  show "key_matches OpVerify (publicKey ref_keypair)"
    by (simp add: key_matches_def ref_keypair_def)
  show "ref_stringify (JObj [(''sub'', JStr ''alice'')]) = Some (ref_payload)"
    by (simp add: ref_stringify_def ref_messages_def ref_message_def)
  show "ref_parse (ref_payload) = Some (JObj [(''sub'', JStr ''alice'')])"
    by (simp add: ref_parse_def ref_messages_def ref_message_def ref_payload_def)
  show "length (ref_sign (Some (privateKey ref_keypair))
          (PAE [''v1.public'', ref_payload, ''footer1''])) = 256"
    by (simp add: ref_sign_def ref_tag_def)
  show "ref_verify (Some (publicKey ref_keypair))
          (ref_sign (Some (privateKey ref_keypair))
             (PAE [''v1.public'', ref_payload, ''footer1'']))
          (PAE [''v1.public'', ref_payload, ''footer1''])"
    by (simp add: ref_sign_def ref_verify_def ref_keypair_def)
qed

section \<open>Verifying: the order of the checks\<close>

lemma verify_with_key:
  "has_key OpVerify this \<Longrightarrow>
   verify ext_parse ext_verify this t =
     (case parse_raw_token t (parse_options_of this) of
        Inl e \<Rightarrow> (Inl e, this)
      | Inr pt \<Rightarrow>
          (case validateHeader (version this) (purpose this) (pt_version pt) (pt_purpose pt) of
             Inl e \<Rightarrow> (Inl e, this)
           | Inr h \<Rightarrow>
               if ext_verify (provider_key OpVerify this) (signatureBytes (pt_raw pt))
                    (PAE [h, raw_payload (pt_raw pt), pt_footer pt])
               then (case validateClaims ext_parse (pt_payload pt) of
                       Inl e \<Rightarrow> (Inl e, this)
                     | Inr claims \<Rightarrow> (Inr \<lparr>message = claims, footer = pt_footer pt\<rparr>, this))
               else (Inl VerificationError, this)))"
  by (auto simp: verify_def has_key_def provider_key_def checkKeyPurpose_def parse_options_of_def
      Let_def split: option.splits sum.splits)

lemma parse_segments_header:
  "parse_segments opts v pu body seg = Inr pt \<Longrightarrow>
   pt_version pt = opt_version opts \<and> pt_purpose pt = opt_purpose opts"
  by (auto simp: parse_segments_def Let_def split: if_splits option.splits)

lemma parse_raw_token_header:
  "parse_raw_token t opts = Inr pt \<Longrightarrow>
   pt_version pt = opt_version opts \<and> pt_purpose pt = opt_purpose opts"
  by (auto simp: parse_raw_token_def split: list.splits dest: parse_segments_header)

lemma ref_has_key: "has_key OpVerify ref_provider" "has_key OpSign ref_provider"
  by (simp_all add: has_key_def provider_key_def ref_provider_def new_V1Public_def
      ref_keypair_def key_matches_def)

lemma segment_count_malformed:
  assumes "has_key OpVerify this"
    and "length (split_on CHR ''.'' t) \<noteq> 3" and "length (split_on CHR ''.'' t) \<noteq> 4"
  shows "verify ext_parse ext_verify this t = (Inl MalformedTokenError, this)"
proof -
  have "parse_raw_token t (parse_options_of this) = Inl MalformedTokenError"
    using assms(2,3) by (auto simp: parse_raw_token_def split: list.splits)
  then show ?thesis
    by (simp add: verify_with_key [OF assms(1)])
qed

lemma parse_segments_body_malformed:
  assumes "v = opt_version opts" and "pu = opt_purpose opts"
    and "body_malformed (opt_signatureLength opts) body"
  shows "parse_segments opts v pu body seg = Inl MalformedTokenError"
  using assms by (auto simp: parse_segments_def body_malformed_def split: option.splits)

lemma body_segment_malformed:
  assumes "has_key OpVerify this"
    and "length (split_on CHR ''.'' t) = 3 \<or> length (split_on CHR ''.'' t) = 4"
    and "split_on CHR ''.'' t ! 0 = version this"
    and "split_on CHR ''.'' t ! 1 = purpose this"
    and "body_malformed (signatureLength this) (split_on CHR ''.'' t ! 2)"
  shows "verify ext_parse ext_verify this t = (Inl MalformedTokenError, this)"
proof -
  have "parse_raw_token t (parse_options_of this) = Inl MalformedTokenError"
    using assms(2-5)
    by (auto simp: parse_raw_token_def parse_options_of_def parse_segments_body_malformed
        split: list.splits)
  then show ?thesis
    by (simp add: verify_with_key [OF assms(1)])
qed

text \<open>
  C7, as amended. On a provider that holds a public verification key, \<open>verify\<close> fails with
  MalformedTokenError whenever the raw token has neither 3 nor 4 dot-separated segments;
  and, when it has 3 or 4 and its first two segments are the provider's version and
  purpose, whenever the body segment is not valid base64url or decodes to fewer bytes than
  the provider's signature length, which is 256 for v1/public.
\<close>

theorem verify_malformed:
  assumes "has_key OpVerify this"
  shows "(length (split_on CHR ''.'' t) \<noteq> 3 \<and> length (split_on CHR ''.'' t) \<noteq> 4 \<longrightarrow>
            verify ext_parse ext_verify this t = (Inl MalformedTokenError, this)) \<and>
         ((length (split_on CHR ''.'' t) = 3 \<or> length (split_on CHR ''.'' t) = 4) \<and>
          split_on CHR ''.'' t ! 0 = version this \<and>
          split_on CHR ''.'' t ! 1 = purpose this \<and>
          body_malformed (signatureLength this) (split_on CHR ''.'' t ! 2) \<longrightarrow>
            verify ext_parse ext_verify this t = (Inl MalformedTokenError, this)) \<and>
         signatureLength (new_V1Public kp) = 256"
  using segment_count_malformed [OF assms] body_segment_malformed [OF assms]
  by (simp add: new_V1Public_def)

theorem verify_malformed_witness:
  "verify ref_parse ref_verify ref_provider ''v1.public'' = (Inl MalformedTokenError, ref_provider) \<and>
   verify ref_parse ref_verify ref_provider ''v1.public.!'' = (Inl MalformedTokenError, ref_provider) \<and>
   verify ref_parse ref_verify ref_provider ''v1.public.AAAA.AA'' =
     (Inl MalformedTokenError, ref_provider)"
proof -
  have v: "version ref_provider = ''v1''" "purpose ref_provider = ''public''"
    "signatureLength ref_provider = 256"
    by (simp_all add: ref_provider_def new_V1Public_def)
  have 1: "split_on CHR ''.'' ''v1.public'' = [''v1'', ''public'']"
    and 2: "split_on CHR ''.'' ''v1.public.!'' = [''v1'', ''public'', ''!'']"
    and 3: "split_on CHR ''.'' ''v1.public.AAAA.AA'' = [''v1'', ''public'', ''AAAA'', ''AA'']"
    by simp_all
  have 4: "body_malformed 256 ''!''" "body_malformed 256 ''AAAA''"
    by (simp_all add: body_malformed_def dec6_def)
  show ?thesis
    using verify_malformed [OF ref_has_key(1), of "''v1.public''" ref_parse ref_verify]
      verify_malformed [OF ref_has_key(1), of "''v1.public.!''" ref_parse ref_verify]
      verify_malformed [OF ref_has_key(1), of "''v1.public.AAAA.AA''" ref_parse ref_verify]
    by (simp add: v 1 2 3 4)
qed

text \<open>
  C7 as stated fails on a provider without key, where the key guard answers first with
  KeyPurposeError (the token \<open>a.b\<close> has two segments), and on a token of another
  version, where the header check answers before the body is decoded (the body \<open>!\<close> of
  \<open>v2.public.!\<close> is not base64url).
\<close>

theorem verify_malformed_counterexample:
  "length (split_on CHR ''.'' ''a.b'') = 2 \<and>
   verify ref_parse ref_verify (new_V1Public None) ''a.b'' =
     (Inl KeyPurposeError, new_V1Public None) \<and>
   split_on CHR ''.'' ''v2.public.!'' = [''v2'', ''public'', ''!''] \<and>
   b64url_decode ''!'' = None \<and>
   verify ref_parse ref_verify ref_provider ''v2.public.!'' =
     (Inl HeaderMismatchError, ref_provider)"
proof -
  have "parse_raw_token ''v2.public.!'' (parse_options_of ref_provider) = Inl HeaderMismatchError"
    by (simp add: parse_raw_token_def parse_segments_def parse_options_of_def ref_provider_def
        new_V1Public_def)
  then have "verify ref_parse ref_verify ref_provider ''v2.public.!'' =
     (Inl HeaderMismatchError, ref_provider)"
    by (simp add: verify_with_key [OF ref_has_key(1)])
  moreover have "verify ref_parse ref_verify (new_V1Public None) ''a.b'' =
     (Inl KeyPurposeError, new_V1Public None)"
    by (simp add: verify_def checkKeyPurpose_def new_V1Public_def)
  ultimately show ?thesis
    by (simp add: dec6_def)
qed

section \<open>Header gate\<close>

lemma sign_V1Public_token:
  assumes "sign ext_stringify ext_sign (new_V1Public kp0) msg ftr = (Inr tok, p0)"
  shows "\<exists>s sg. tok = packer ''v1.public'' s sg ftr"
  using assms
  by (auto simp: sign_def encoder_encode_def new_V1Public_def Let_def validateFooter_def split: sum.splits)

lemma split_packer_v1:
  "\<exists>body rest. split_on CHR ''.'' (packer ''v1.public'' s sg ftr) = ''v1'' # ''public'' # body # rest
     \<and> (rest = [] \<or> (\<exists>seg. rest = [seg]))"
  using split_packer [of "''v1''" "''public''" s sg ftr] by (cases "ftr = []") simp_all

lemma ref_sign_token:
  "sign ref_stringify ref_sign ref_provider ref_message ref_footer = (Inr ref_token, ref_provider)"
  by (simp add: sign_def encoder_encode_def ref_provider_def new_V1Public_def checkKeyPurpose_def key_matches_def
      ref_keypair_def validateMessage_def ref_message_def ref_stringify_def ref_messages_def
      validateFooter_def ref_token_def ref_signature_def Let_def)

text \<open>
  C4, as amended. A token that \<open>sign\<close> produced on a (v1, public) provider, presented to
  a provider that holds a public verification key and is configured for another version or
  purpose, fails with HeaderMismatchError, not VerificationError. The outcome does not
  depend on the external verify primitive: the header is checked before the primitive is
  consulted.
\<close>

theorem header_gate:
  assumes "sign ext_stringify ext_sign (new_V1Public kp0) msg ftr = (Inr tok, p0)"
    and "has_key OpVerify this"
    and "version this \<noteq> ''v1'' \<or> purpose this \<noteq> ''public''"
  shows "verify ext_parse ext_verify this tok = (Inl HeaderMismatchError, this)"
proof -
  from sign_V1Public_token [OF assms(1)] obtain s sg where
    tok: "tok = packer ''v1.public'' s sg ftr" by blast
  from split_packer_v1 [of s sg ftr] obtain body rest where
    segs: "split_on CHR ''.'' tok = ''v1'' # ''public'' # body # rest"
    and rest: "rest = [] \<or> (\<exists>seg. rest = [seg])"
    unfolding tok by blast
  have "parse_raw_token tok (parse_options_of this) = Inl HeaderMismatchError"
    using rest assms(3)
    by (auto simp: parse_raw_token_def segs parse_segments_def parse_options_of_def)
  then show ?thesis
    by (simp add: verify_with_key [OF assms(2)])
qed

theorem header_gate_witness:
  "sign ref_stringify ref_sign (new_V1Public (Some ref_keypair)) ref_message ref_footer =
     (Inr ref_token, ref_provider) \<and>
   verify ref_parse (\<lambda>k s m. True) v2_provider ref_token = (Inl HeaderMismatchError, v2_provider)"
proof -
  have s: "sign ref_stringify ref_sign (new_V1Public (Some ref_keypair)) ref_message ref_footer =
     (Inr ref_token, ref_provider)"
    using ref_sign_token by (simp add: ref_provider_def)
  have k: "has_key OpVerify v2_provider"
    by (simp add: has_key_def provider_key_def v2_provider_def ref_keypair_def key_matches_def)
  have v: "version v2_provider \<noteq> ''v1'' \<or> purpose v2_provider \<noteq> ''public''"
    by (simp add: v2_provider_def)
  from header_gate [OF s k v] s show ?thesis by simp
qed

text \<open>
  C4 as stated fails on a provider of another version that holds no key: the key guard
  answers first, with KeyPurposeError.
\<close>

theorem header_gate_counterexample:
  "sign ref_stringify ref_sign (new_V1Public (Some ref_keypair)) ref_message ref_footer =
     (Inr ref_token, ref_provider) \<and>
   version v2_provider_without_key \<noteq> ''v1'' \<and>
   verify ref_parse ref_verify v2_provider_without_key ref_token =
     (Inl KeyPurposeError, v2_provider_without_key)"
  using ref_sign_token
  by (simp add: ref_provider_def verify_def checkKeyPurpose_def v2_provider_without_key_def)

section \<open>Key purpose\<close>

text \<open>
  C8. In every provider state and on every input, \<open>sign\<close> fails with KeyPurposeError when
  the provider lacks a private signing key (no key pair, or a key whose type, usage or
  algorithm does not match signing), and \<open>verify\<close> fails with KeyPurposeError when it
  lacks a public verification key. The guard comes first: the outcome is the same whatever
  the message, the footer or the token are.
\<close>

theorem key_purpose_guard:
  "(\<not> has_key OpSign this \<longrightarrow>
      sign ext_stringify ext_sign this msg ftr = (Inl KeyPurposeError, this)) \<and>
   (\<not> has_key OpVerify this \<longrightarrow>
      verify ext_parse ext_verify this t = (Inl KeyPurposeError, this))"
  by (auto simp: has_key_def provider_key_def sign_def encoder_encode_def verify_def checkKeyPurpose_def
      split: option.splits)

theorem key_purpose_guard_witness:
  "sign ref_stringify ref_sign (new_V1Public None) (JNum 3) ''f'' =
     (Inl KeyPurposeError, new_V1Public None) \<and>
   sign ref_stringify ref_sign (new_V1Public (Some verify_only_keypair)) ref_message ''f'' =
     (Inl KeyPurposeError, new_V1Public (Some verify_only_keypair)) \<and>
   verify ref_parse ref_verify (new_V1Public None) ''not a token'' =
     (Inl KeyPurposeError, new_V1Public None)"
  using key_purpose_guard [of "new_V1Public None" ref_stringify ref_sign "JNum 3" "''f''"
      ref_parse ref_verify "''not a token''"]
    key_purpose_guard [of "new_V1Public (Some verify_only_keypair)" ref_stringify ref_sign
      ref_message "''f''" ref_parse ref_verify "''not a token''"]
  by (simp add: has_key_def provider_key_def new_V1Public_def verify_only_keypair_def
      key_matches_def ref_keypair_def)

section \<open>Key generation\<close>

text \<open>
  C5. On a provider whose key slot is populated, at construction or by an earlier
  \<open>generateKey\<close>, \<open>generateKey\<close> fails with ProviderError (the ProviderStateError of the
  specification) and leaves the provider, hence its key, unchanged. It succeeds only when
  no key exists, and then all it does is to store the engine's key pair in the key slot.
\<close>

theorem generateKey_once:
  "(keyPair this = Some kp \<longrightarrow> generateKey engine this = (Inl ProviderError, this)) \<and>
   (keyPair this = None \<longrightarrow>
      generateKey (Inr kp') this = (Inr (), this\<lparr>keyPair := Some kp'\<rparr>) \<and>
      generateKey engine (snd (generateKey (Inr kp') this)) =
        (Inl ProviderError, this\<lparr>keyPair := Some kp'\<rparr>)) \<and>
   (fst (generateKey engine this) = Inr () \<longrightarrow>
      keyPair this = None \<and>
      (\<exists>k. engine = Inr k \<and> snd (generateKey engine this) = this\<lparr>keyPair := Some k\<rparr>))"
  by (auto simp: generateKey_def generateKey_start_def generateKey_resume_def
      split: option.splits sum.splits)

theorem generateKey_once_witness:
  "generateKey (Inr other_keypair) (new_V1Public (Some ref_keypair)) =
     (Inl ProviderError, new_V1Public (Some ref_keypair)) \<and>
   generateKey (Inr ref_keypair) (new_V1Public None) = (Inr (), new_V1Public (Some ref_keypair)) \<and>
   generateKey (Inr other_keypair) (snd (generateKey (Inr ref_keypair) (new_V1Public None))) =
     (Inl ProviderError, new_V1Public (Some ref_keypair))"
  using generateKey_once [of "new_V1Public (Some ref_keypair)" ref_keypair "Inr other_keypair"]
    generateKey_once [of "new_V1Public None" ref_keypair "Inr other_keypair" ref_keypair]
  by (simp add: new_V1Public_def)

text \<open>
  C6 is violated by the code. Two calls of \<open>generateKey\<close> on a fresh provider that overlap:
  both are invoked before the engine answers either. Both pass the test of the key slot,
  both succeed, and the key pair of the first is overwritten by that of the second.
\<close>

theorem generateKey_overlap:
  "gk_run \<lparr>provider = new_V1Public None, calls = [Pending, Pending]\<rparr>
     [Invoke 0, Invoke 1, Answer 0 (Inr k1), Answer 1 (Inr k2)] =
   \<lparr>provider = new_V1Public (Some k2), calls = [Settled (Inr ()), Settled (Inr ())]\<rparr>"
  by (simp add: gk_run_def gk_step_def generateKey_start_def generateKey_resume_def
      new_V1Public_def)

section \<open>Frame\<close>

text \<open>
  C9. \<open>sign\<close> and \<open>verify\<close> never modify the provider: after every call, succeeding or
  failing, the provider (key pair, signatureLength, version and purpose) is the one before
  the call. \<open>generateKey\<close> does write it.
\<close>

theorem sign_verify_frame:
  "snd (sign ext_stringify ext_sign this msg ftr) = this \<and>
   snd (verify ext_parse ext_verify this t) = this \<and>
   snd (generateKey (Inr kp) (new_V1Public None)) \<noteq> new_V1Public None"
  by (auto simp: sign_def encoder_encode_def verify_def Let_def generateKey_def generateKey_start_def
      generateKey_resume_def new_V1Public_def split: sum.splits)

text \<open>
  C10. \<open>encrypt\<close> and \<open>decrypt\<close> of the local provider, in every state of the provider and
  with any arguments, raise no error, return no value and leave the provider as it is;
  each writes one line to the console.
\<close>

theorem local_stubs:
  "fst (encrypt args (this, console)) = Inr () \<and>
   fst (snd (encrypt args (this, console))) = this \<and>
   snd (snd (encrypt args (this, console))) = console @ [''develop an app''] \<and>
   fst (decrypt args (this, console)) = Inr () \<and>
   fst (snd (decrypt args (this, console))) = this \<and>
   snd (snd (decrypt args (this, console))) = console @ [''develop an app'']"
  by (simp add: encrypt_def decrypt_def)

section \<open>Tampering\<close>














lemma verify_after_parse:
  assumes "has_key OpVerify this"
    and "parse_raw_token t (parse_options_of this) = Inr pt"
  shows "verify ext_parse ext_verify this t =
           (if ext_verify (provider_key OpVerify this) (signatureBytes (pt_raw pt))
                 (PAE [version this @ ''.'' @ purpose this, raw_payload (pt_raw pt), pt_footer pt])
            then (case validateClaims ext_parse (pt_payload pt) of
                    Inl e \<Rightarrow> (Inl e, this)
                  | Inr claims \<Rightarrow> (Inr \<lparr>message = claims, footer = pt_footer pt\<rparr>, this))
            else (Inl VerificationError, this))"
proof -
  from parse_raw_token_header [OF assms(2)]
  have "validateHeader (version this) (purpose this) (pt_version pt) (pt_purpose pt) =
          Inr (version this @ ''.'' @ purpose this)"
    by (simp add: validateHeader_def parse_options_of_def)
  with assms(2) show ?thesis
    by (simp add: verify_with_key [OF assms(1)])
qed




lemma split_four:
  assumes "d \<notin> set a" "d \<notin> set b" "d \<notin> set c" "d \<notin> set e"
  shows "split_on d (a @ d # b @ d # c @ d # e) = [a, b, c, e]"
  using assms by (simp add: split_on_append split_on_no_sep)


lemma char_of_values:
  "char_of (101::nat) = CHR ''e''" "char_of (121::nat) = CHR ''y''" "char_of (74::nat) = CHR ''J''"
  "char_of (122::nat) = CHR ''z''" "char_of (100::nat) = CHR ''d''" "char_of (37::nat) = CHR ''%''"
  by code_simp+

lemma ref_body:
  "b64url_encode (ref_payload @ ref_signature) = CHR ''e'' # ref_body_rest"
  by (simp add: ref_payload_def ref_body_rest_def enc6_def char_of_values)

lemma ref_body_tampered:
  "b64url_encode (CHR ''w'' # tl ref_payload @ ref_signature) = CHR ''d'' # ref_body_rest"
  by (simp add: ref_payload_def ref_body_rest_def enc6_def char_of_values)

lemma ref_footer_segment:
  "b64url_encode ref_footer = ''Zm9vdGVyM'' @ [CHR ''Q'']"
  "b64url_decode ''Zm9vdGVyMU'' = Some ref_footer"
  "b64url_decode ''Zm9vdGVyM'' = None"
  unfolding ref_footer_def by code_simp+

lemma ref_token_shape:
  "ref_token = ''v1.public.'' @ CHR ''e'' # ref_body_rest @ CHR ''.'' # b64url_encode ref_footer"
  "packer ''v1.public'' (CHR ''w'' # tl ref_payload) ref_signature ref_footer =
     ''v1.public.'' @ CHR ''d'' # ref_body_rest @ CHR ''.'' # b64url_encode ref_footer"
  by (simp_all add: ref_token_def packer_def ref_body ref_body_tampered ref_footer_def)


lemma ref_signature_length: "length ref_signature = 256"
  by (simp add: ref_signature_def ref_sign_def ref_tag_def)



lemma ref_body_rest_no_dot: "CHR ''.'' \<notin> set ref_body_rest"
  by (simp add: ref_body_rest_def b64url_no_dot)


lemma ref_token_last:
  "ref_token = (''v1.public.'' @ CHR ''e'' # ref_body_rest @ CHR ''.'' # ''Zm9vdGVyM'') @ [CHR ''Q'']"
  by (simp add: ref_token_shape ref_footer_segment)


lemma ref_opts:
  "parse_options_of ref_provider =
     \<lparr>opt_version = ''v1'', opt_purpose = ''public'', opt_signatureLength = 256\<rparr>"
  by (simp add: parse_options_of_def ref_provider_def new_V1Public_def)

lemma ref_provider_fields:
  "version ref_provider = ''v1''" "purpose ref_provider = ''public''"
  "provider_key OpVerify ref_provider = Some (publicKey ref_keypair)"
  by (simp_all add: ref_provider_def new_V1Public_def provider_key_def)

lemma ref_footer_decoded:
  "decode_footer (Some ''Zm9vdGVyMU'') = ref_footer" "decode_footer (Some ''Zm9vdGVyM'') = []"
  by (simp_all only: decode_footer_def ref_footer_segment option.case)







text \<open>
  The scenario of the specification's testable properties: the reference token cut by its
  last character has a footer segment that does not decode, hence an empty footer, and
  fails with VerificationError.
\<close>

lemma truncated_token:
  "verify ref_parse (ledger_verify ref_ledger) ref_provider (butlast ref_token) =
     (Inl VerificationError, ref_provider)"
proof -
  have cut: "butlast ref_token =
      ''v1.public.'' @ CHR ''e'' # ref_body_rest @ CHR ''.'' # ''Zm9vdGVyM''"
    by (simp only: ref_token_last butlast_snoc)
  have "split_on CHR ''.'' (''v1'' @ CHR ''.'' # ''public'' @ CHR ''.'' # (CHR ''e'' # ref_body_rest)
          @ CHR ''.'' # ''Zm9vdGVyM'') = [''v1'', ''public'', CHR ''e'' # ref_body_rest, ''Zm9vdGVyM'']"
    by (rule split_four) (simp_all add: ref_body_rest_no_dot)
  then have segs: "split_on CHR ''.'' (butlast ref_token) =
      [''v1'', ''public'', CHR ''e'' # ref_body_rest, ''Zm9vdGVyM'']"
    by (simp add: cut)
  have "b64url_decode (CHR ''e'' # ref_body_rest) = Some (ref_payload @ ref_signature)"
    using b64url_roundtrip [of "ref_payload @ ref_signature"] by (simp only: ref_body)
  then have parsed: "parse_raw_token (butlast ref_token) (parse_options_of ref_provider) =
      Inr \<lparr>pt_version = ''v1'', pt_purpose = ''public'', pt_payload = ref_payload,
          pt_footer = [],
          pt_raw = \<lparr>raw_payload = ref_payload, signatureBytes = ref_signature\<rparr>\<rparr>"
    by (simp add: parse_raw_token_def segs parse_segments_def ref_opts
        ref_signature_length ref_footer_decoded)
  have "PAE [''v1.public'', ref_payload, []] \<noteq> PAE [''v1.public'', ref_payload, ref_footer]"
  proof
    assume "PAE [''v1.public'', ref_payload, []] = PAE [''v1.public'', ref_payload, ref_footer]"
    then have "[''v1.public'', ref_payload, []] = [''v1.public'', ref_payload, ref_footer]"
      by (rule PAE_eq_imp_eq [rotated 2]) (simp_all add: pae_input_def ref_payload_def ref_footer_def)
    then show False
      by (simp add: ref_footer_def)
  qed
  then have "\<not> ledger_verify ref_ledger (Some (publicKey ref_keypair)) ref_signature
      (PAE [''v1.public'', ref_payload, []])"
    by (simp add: ledger_verify_def ref_ledger_def)
  then show ?thesis
    by (simp add: verify_after_parse [OF ref_has_key(1) parsed] ref_provider_fields)
qed

end
